theory Spec2Isabelle
  imports Main "HOL-Library.Multiset" "HOL-Library.Word"
begin

section \<open>Data model\<close>

text \<open>
  The program is one Python module, \<^verbatim>\<open>lambda_function.py\<close>: module-level
  initialisation (lines 9-14) followed by the handler \<^verbatim>\<open>lambda_handler\<close> (lines 16-48).
  The handler talks to three external parties: the DynamoDB table resource, the Spark
  session with its Parquet writer, and the S3 client. None of their code belongs to the
  module. DynamoDB is represented by the reply that \<^verbatim>\<open>table.scan()\<close> gives, S3 by an
  explicit object store, and the Spark library by a record of functions that the handler
  receives as a parameter. Every call may raise; an exception is a value \<open>Inl e\<close>.
\<close>

datatype error =
    KeyError string
  | ClientError string
  | SparkError string

type_synonym bytes = "8 word list"

text \<open>
  An item of the table is a Python \<^verbatim>\<open>dict\<close>. The order of its keys matters (line 31
  iterates over \<^verbatim>\<open>data[0].keys()\<close>), so it is an association list in insertion order.
  The handler never inspects a value, hence the value type is a parameter.
\<close>

type_synonym 'v item = "(string \<times> 'v) list"

definition keys :: "'v item \<Rightarrow> string list" where
  "keys d = map fst d"

text \<open>\<^verbatim>\<open>StringType()\<close> is the only type the module ever constructs.\<close>

datatype data_type = StringType

text \<open>\<^verbatim>\<open>StructField(name, dataType, nullable)\<close>; a \<^verbatim>\<open>StructType\<close> is the list of its fields.\<close>

datatype struct_field =
  StructField (field_name: string) (field_type: data_type) (field_nullable: bool)

type_synonym struct_type = "struct_field list"

text \<open>
  The reply of \<^verbatim>\<open>table.scan()\<close> is a dict. The handler reads its key \<^verbatim>\<open>"Items"\<close> and
  nothing else; \<^verbatim>\<open>"LastEvaluatedKey"\<close> is the key by which the service announces that the
  scan was cut short and has to be continued.
\<close>

record 'v scan_response =
  Items :: "'v item list option"
  LastEvaluatedKey :: "'v item option"

text \<open>What \<^verbatim>\<open>dynamodb.Table(name).scan()\<close> gives for a table name: an exception or a reply.\<close>

type_synonym 'v dynamo = "string \<Rightarrow> error + 'v scan_response"

text \<open>The handler's return value, \<^verbatim>\<open>{"statusCode": ..., "body": ...}\<close>.\<close>

record result =
  statusCode :: int
  body :: string

text \<open>The module-level constants of lines 13-14.\<close>

record config =
  TABLE_NAME :: string
  BUCKET_NAME :: string

section \<open>The object store\<close>

record s3_object =
  Body :: bytes
  ContentType :: string

text \<open>Bucket name to (object key to object). A bucket that is not in the map does not exist.\<close>

type_synonym s3 = "string \<rightharpoonup> (string \<rightharpoonup> s3_object)"

text \<open>
  \<^verbatim>\<open>s3.put_object(Bucket=..., Key=..., Body=..., ContentType=...)\<close>: stores the object under
  the key, replacing whatever was there; raises when the bucket does not exist.
\<close>

definition put_object :: "s3 \<Rightarrow> string \<Rightarrow> string \<Rightarrow> bytes \<Rightarrow> string \<Rightarrow> error + s3" where
  "put_object store bucket key buf ctype =
     (case store bucket of
        None \<Rightarrow> Inl (ClientError ''NoSuchBucket'')
      | Some objs \<Rightarrow> Inr (store(bucket \<mapsto> objs(key \<mapsto> \<lparr>Body = buf, ContentType = ctype\<rparr>))))"

definition object_at :: "s3 \<Rightarrow> string \<Rightarrow> string \<Rightarrow> s3_object option" where
  "object_at store bucket key = (case store bucket of None \<Rightarrow> None | Some objs \<Rightarrow> objs key)"

section \<open>The Spark library as a parameter\<close>

text \<open>
  \<^item> \<open>getOrCreate name\<close> is \<^verbatim>\<open>SparkSession.builder.appName(name).getOrCreate()\<close>;
  \<^item> \<open>createDataFrame spark data schema\<close> is \<^verbatim>\<open>spark.createDataFrame(data, schema=schema)\<close>;
  \<^item> \<open>write_parquet df buf\<close> is \<^verbatim>\<open>df.write.parquet(buffer)\<close> on a buffer holding \<open>buf\<close>,
    and gives what \<^verbatim>\<open>buffer.getvalue()\<close> returns afterwards.
\<close>

record ('v, 's, 'df) spark_lib =
  getOrCreate :: "string \<Rightarrow> error + 's"
  createDataFrame :: "'s \<Rightarrow> 'v item list \<Rightarrow> struct_type \<Rightarrow> error + 'df"
  write_parquet :: "'df \<Rightarrow> bytes \<Rightarrow> error + bytes"

section \<open>Effects\<close>

text \<open>The calls that leave the module, in the order they are made, with their arguments.\<close>

datatype 'v call =
    Scan string
  | Print string
  | GetOrCreate string
  | CreateDataFrame "'v item list" struct_type
  | WriteParquet
  | PutObject string string bytes string

record 'v outcome =
  returned :: "error + result"
  effects :: "'v call list"
  s3_after :: s3

text \<open>The \<^verbatim>\<open>put_object\<close> calls among some calls: bucket, key, body, content type.\<close>

fun puts :: "'v call list \<Rightarrow> (string \<times> string \<times> bytes \<times> string) list" where
  "puts [] = []"
| "puts (PutObject b k buf ct # cs) = (b, k, buf, ct) # puts cs"
| "puts (_ # cs) = puts cs"

text \<open>The \<^verbatim>\<open>createDataFrame\<close> calls among some calls: the rows and the schema passed.\<close>

fun frames :: "'v call list \<Rightarrow> ('v item list \<times> struct_type) list" where
  "frames [] = []"
| "frames (CreateDataFrame d s # cs) = (d, s) # frames cs"
| "frames (_ # cs) = frames cs"

text \<open>The calls into the Spark library.\<close>

fun is_encoding :: "'v call \<Rightarrow> bool" where
  "is_encoding (GetOrCreate n) = True"
| "is_encoding (CreateDataFrame d s) = True"
| "is_encoding WriteParquet = True"
| "is_encoding _ = False"

section \<open>Module initialisation (lines 9-14)\<close>

text \<open>
  \<^verbatim>\<open>os.environ["TABLE_NAME"]\<close> and \<^verbatim>\<open>os.environ["BUCKET_NAME"]\<close> are subscripts, which raise
  \<^verbatim>\<open>KeyError\<close> on a missing name. The two client objects of lines 9-10 are built before and
  are only handles: building them reads no table and writes no object.
\<close>

definition environ_get :: "(string \<rightharpoonup> string) \<Rightarrow> string \<Rightarrow> error + string" where
  "environ_get environ k = (case environ k of None \<Rightarrow> Inl (KeyError k) | Some v \<Rightarrow> Inr v)"

definition load_module :: "(string \<rightharpoonup> string) \<Rightarrow> error + config" where
  "load_module environ =
     (case environ_get environ ''TABLE_NAME'' of
        Inl e \<Rightarrow> Inl e
      | Inr t \<Rightarrow>
          (case environ_get environ ''BUCKET_NAME'' of
             Inl e \<Rightarrow> Inl e
           | Inr b \<Rightarrow> Inr \<lparr>TABLE_NAME = t, BUCKET_NAME = b\<rparr>))"

section \<open>The handler (lines 16-48)\<close>

text \<open>\<^verbatim>\<open>response.get("Items", [])\<close>\<close>

definition get_items :: "'v scan_response \<Rightarrow> 'v item list" where
  "get_items response = (case Items response of None \<Rightarrow> [] | Some xs \<Rightarrow> xs)"

text \<open>Line 31: \<^verbatim>\<open>StructType([StructField(key, StringType(), True) for key in data[0].keys()])\<close>\<close>

definition first_row_schema :: "'v item \<Rightarrow> struct_type" where
  "first_row_schema row = map (\<lambda>key. StructField key StringType True) (keys row)"

definition lambda_handler ::
  "('v, 's, 'df) spark_lib \<Rightarrow> config \<Rightarrow> 'ev \<Rightarrow> 'ctx \<Rightarrow> 'v dynamo \<Rightarrow> s3 \<Rightarrow> 'v outcome" where
  "lambda_handler lib cfg event context dynamo store =
     (let e1 = [Scan (TABLE_NAME cfg)] in
      case dynamo (TABLE_NAME cfg) of
        Inl err \<Rightarrow> \<lparr>returned = Inl err, effects = e1, s3_after = store\<rparr>
      | Inr response \<Rightarrow>
          (let data = get_items response in
           case data of
             [] \<Rightarrow>
               \<lparr>returned = Inr \<lparr>statusCode = 200, body = ''No data to backup''\<rparr>,
                effects = e1 @ [Print ''No data found in the table.''],
                s3_after = store\<rparr>
           | row0 # _ \<Rightarrow>
               (let e2 = e1 @ [GetOrCreate ''DynamoDBToParquet''] in
                case getOrCreate lib ''DynamoDBToParquet'' of
                  Inl err \<Rightarrow> \<lparr>returned = Inl err, effects = e2, s3_after = store\<rparr>
                | Inr spark \<Rightarrow>
                    (let schema = first_row_schema row0;
                         e3 = e2 @ [CreateDataFrame data schema] in
                     case createDataFrame lib spark data schema of
                       Inl err \<Rightarrow> \<lparr>returned = Inl err, effects = e3, s3_after = store\<rparr>
                     | Inr df \<Rightarrow>
                         (let e4 = e3 @ [WriteParquet] in
                          case write_parquet lib df [] of
                            Inl err \<Rightarrow> \<lparr>returned = Inl err, effects = e4, s3_after = store\<rparr>
                          | Inr buf \<Rightarrow>
                              (let e5 = e4 @ [PutObject (BUCKET_NAME cfg) ''dynamodb_backup.parquet''
                                                buf ''application/octet-stream''] in
                               case put_object store (BUCKET_NAME cfg) ''dynamodb_backup.parquet''
                                      buf ''application/octet-stream'' of
                                 Inl err \<Rightarrow> \<lparr>returned = Inl err, effects = e5, s3_after = store\<rparr>
                               | Inr store' \<Rightarrow>
                                   \<lparr>returned = Inr \<lparr>statusCode = 200,
                                                    body = ''Backup saved in Parquet format''\<rparr>,
                                    effects = e5, s3_after = store'\<rparr>))))))"

section \<open>The runtime around the handler\<close>

text \<open>
  The hosting runtime imports the module and then calls the handler. When the import
  raises, the handler is never bound and nothing of its body runs.
\<close>

definition invoke ::
  "('v, 's, 'df) spark_lib \<Rightarrow> (string \<rightharpoonup> string) \<Rightarrow> 'ev \<Rightarrow> 'ctx \<Rightarrow> 'v dynamo \<Rightarrow> s3 \<Rightarrow> 'v outcome" where
  "invoke lib environ event context dynamo store =
     (case load_module environ of
        Inl err \<Rightarrow> \<lparr>returned = Inl err, effects = [], s3_after = store\<rparr>
      | Inr cfg \<Rightarrow> lambda_handler lib cfg event context dynamo store)"


text \<open>The object handed over by the last \<^verbatim>\<open>put_object\<close> call among some calls, if any.\<close>

definition last_put :: "'v call list \<Rightarrow> s3_object option" where
  "last_put cs =
     (case rev (puts cs) of
        [] \<Rightarrow> None
      | (b, k, buf, ct) # _ \<Rightarrow> Some \<lparr>Body = buf, ContentType = ct\<rparr>)"

section \<open>The table service\<close>

text \<open>
  A Scan request without a start key answers with the first page of the table only. The
  page size (1 MB of data in the service) is the number \<open>limit\<close> of items here. When items
  remain, the reply carries \<^verbatim>\<open>LastEvaluatedKey\<close>, here the last item of the page.
\<close>

definition first_page :: "nat \<Rightarrow> 'v item list \<Rightarrow> 'v scan_response" where
  "first_page limit rows =
     \<lparr>Items = Some (take limit rows),
      LastEvaluatedKey = (if limit < length rows then Some (rows ! (limit - 1)) else None)\<rparr>"

definition table_scan :: "nat \<Rightarrow> (string \<rightharpoonup> 'v item list) \<Rightarrow> 'v dynamo" where
  "table_scan limit tables name =
     (case tables name of
        None \<Rightarrow> Inl (ClientError ''ResourceNotFoundException'')
      | Some rows \<Rightarrow> Inr (first_page limit rows))"

section \<open>What is expected of the encoder\<close>

text \<open>
  Items are dicts, so their keys are distinct; a table is uniform when every row has the
  key set of the first one.
\<close>

definition dict_rows :: "'v item list \<Rightarrow> bool" where
  "dict_rows data = list_all (\<lambda>r. distinct (keys r)) data"

definition uniform_keys :: "'v item list \<Rightarrow> bool" where
  "uniform_keys data =
     (case data of [] \<Rightarrow> True | r0 # rest \<Rightarrow> list_all (\<lambda>r. set (keys r) = set (keys r0)) rest)"

definition rows_fit :: "'v item list \<Rightarrow> struct_type \<Rightarrow> bool" where
  "rows_fit data schema = list_all (\<lambda>r. set (keys r) = set (map field_name schema)) data"

definition all_strings :: "struct_type \<Rightarrow> bool" where
  "all_strings schema = list_all (\<lambda>f. field_type f = StringType \<and> field_nullable f) schema"

text \<open>Two row sets hold the same records: equal as dicts, in any row order.\<close>

definition same_records :: "'v item list \<Rightarrow> 'v item list \<Rightarrow> bool" where
  "same_records rows data = (mset (map map_of rows) = mset (map map_of data))"

text \<open>
  The contract between the library and a reader \<open>decode\<close> of the files it writes: on rows
  that are dicts with exactly the schema's names as keys, under a schema of distinct,
  nullable string fields, starting the session, building the data frame and writing it
  to an empty buffer succeed, and the reader gets the schema and the records back from
  the buffer. That the writer fills an in-memory buffer at all is part of this contract:
  it is a property of the library, which the module takes for granted.
\<close>

definition parquet_codec ::
  "('v, 's, 'df) spark_lib \<Rightarrow> (bytes \<Rightarrow> (struct_type \<times> 'v item list) option) \<Rightarrow> bool" where
  "parquet_codec lib decode =
     (\<forall>name data schema.
        data \<noteq> [] \<and> dict_rows data \<and> rows_fit data schema \<and>
        distinct (map field_name schema) \<and> all_strings schema \<longrightarrow>
        (\<exists>spark df buf rows.
           getOrCreate lib name = Inr spark \<and>
           createDataFrame lib spark data schema = Inr df \<and>
           write_parquet lib df [] = Inr buf \<and>
           decode buf = Some (schema, rows) \<and> same_records rows data))"

section \<open>An instance of the library\<close>

text \<open>
  A small library that fits the interface, with string values and a self-delimiting byte
  format: a number \<open>n\<close> is \<open>n\<close> bytes 1 and a byte 0, a string is its length and its
  characters, a list is its length and its elements. It serves to run the handler on
  concrete tables.
\<close>

definition enc_nat :: "nat \<Rightarrow> bytes" where
  "enc_nat n = replicate n 1 @ [0]"

definition dec_nat :: "bytes \<Rightarrow> nat \<times> bytes" where
  "dec_nat bs = (length (takeWhile (\<lambda>b. b \<noteq> 0) bs), drop 1 (dropWhile (\<lambda>b. b \<noteq> 0) bs))"

definition enc_string :: "string \<Rightarrow> bytes" where
  "enc_string s = enc_nat (length s) @ map (\<lambda>c. of_nat (of_char c)) s"

definition dec_string :: "bytes \<Rightarrow> string \<times> bytes" where
  "dec_string bs =
     (case dec_nat bs of (n, r) \<Rightarrow> (map (\<lambda>b. char_of (unat b)) (take n r), drop n r))"

fun dec_many :: "(bytes \<Rightarrow> 'a \<times> bytes) \<Rightarrow> nat \<Rightarrow> bytes \<Rightarrow> 'a list \<times> bytes" where
  "dec_many d 0 bs = ([], bs)"
| "dec_many d (Suc n) bs =
     (case d bs of (x, r) \<Rightarrow> (case dec_many d n r of (xs, r') \<Rightarrow> (x # xs, r')))"

definition enc_list :: "('a \<Rightarrow> bytes) \<Rightarrow> 'a list \<Rightarrow> bytes" where
  "enc_list f xs = enc_nat (length xs) @ concat (map f xs)"

definition dec_list :: "(bytes \<Rightarrow> 'a \<times> bytes) \<Rightarrow> bytes \<Rightarrow> 'a list \<times> bytes" where
  "dec_list d bs = (case dec_nat bs of (n, r) \<Rightarrow> dec_many d n r)"

definition enc_entry :: "string \<times> string \<Rightarrow> bytes" where
  "enc_entry kv = enc_string (fst kv) @ enc_string (snd kv)"

definition dec_entry :: "bytes \<Rightarrow> (string \<times> string) \<times> bytes" where
  "dec_entry bs =
     (case dec_string bs of (k, r) \<Rightarrow> (case dec_string r of (v, r') \<Rightarrow> ((k, v), r')))"

definition enc_field :: "struct_field \<Rightarrow> bytes" where
  "enc_field f = enc_string (field_name f) @ [if field_nullable f then 1 else 0]"

definition dec_field :: "bytes \<Rightarrow> struct_field \<times> bytes" where
  "dec_field bs =
     (case dec_string bs of
        (n, r) \<Rightarrow> (StructField n StringType (take 1 r = [1]), drop 1 r))"

definition enc_frame :: "struct_type \<times> string item list \<Rightarrow> bytes" where
  "enc_frame fr = enc_list enc_field (fst fr) @ enc_list (enc_list enc_entry) (snd fr)"

definition ref_decode :: "bytes \<Rightarrow> (struct_type \<times> string item list) option" where
  "ref_decode bs =
     (case dec_list dec_field bs of
        (schema, r) \<Rightarrow>
          (case dec_list (dec_list dec_entry) r of
             (rows, r') \<Rightarrow> if r' = [] then Some (schema, rows) else None))"

text \<open>
  The instance refuses rows that are not dicts over the schema's names, and appends the
  encoded frame to the buffer it is given.
\<close>

definition ref_lib :: "(string, unit, struct_type \<times> string item list) spark_lib" where
  "ref_lib =
     \<lparr>getOrCreate = (\<lambda>name. Inr ()),
      createDataFrame = (\<lambda>spark data schema.
         if dict_rows data \<and> rows_fit data schema then Inr (schema, data)
         else Inl (SparkError ''row does not match the schema'')),
      write_parquet = (\<lambda>df buf. Inr (buf @ enc_frame df))\<rparr>"

text \<open>
  The writer of the Spark library itself, \<^verbatim>\<open>DataFrameWriter.parquet(path, ...)\<close>, takes
  the path of a directory to write to, not a buffer. Line 38 hands it the \<^verbatim>\<open>BytesIO\<close>
  object of line 37: the call raises, and nothing is put into the buffer. The following
  instance is the one above with that writer.
\<close>

definition path_lib :: "(string, unit, struct_type \<times> string item list) spark_lib" where
  "path_lib =
     \<lparr>getOrCreate = getOrCreate ref_lib,
      createDataFrame = createDataFrame ref_lib,
      write_parquet = (\<lambda>df buf. Inl (SparkError ''parquet() takes a path''))\<rparr>"

section \<open>Example data\<close>

text \<open>The two rows of the specification's example, a third row, and a row with an extra key.\<close>

definition row_a :: "string item" where
  "row_a = [(''id'', ''1''), (''name'', ''a'')]"

definition row_b :: "string item" where
  "row_b = [(''id'', ''2''), (''name'', ''b'')]"


definition row_x :: "string item" where
  "row_x = [(''id'', ''2''), (''extra'', ''x'')]"

definition cfg0 :: config where
  "cfg0 = \<lparr>TABLE_NAME = ''source'', BUCKET_NAME = ''backups''\<rparr>"

definition environ0 :: "string \<rightharpoonup> string" where
  "environ0 = [''TABLE_NAME'' \<mapsto> ''source'', ''BUCKET_NAME'' \<mapsto> ''backups'']"

text \<open>A store with the bucket, holding an older object under the snapshot's key.\<close>

definition store0 :: s3 where
  "store0 = [''backups'' \<mapsto>
     [''dynamodb_backup.parquet'' \<mapsto> \<lparr>Body = [7, 7, 7], ContentType = ''text/plain''\<rparr>]]"

text \<open>A table service that answers with the given reply for every table.\<close>

definition reply :: "'v scan_response \<Rightarrow> 'v dynamo" where
  "reply response = (\<lambda>name. Inr response)"

section \<open>Lemmas about the handler's paths\<close>

lemma handler_scan_error:
  assumes "dynamo (TABLE_NAME cfg) = Inl err"
  shows "lambda_handler lib cfg event context dynamo store =
           \<lparr>returned = Inl err, effects = [Scan (TABLE_NAME cfg)], s3_after = store\<rparr>"
  using assms by (simp add: lambda_handler_def)

lemma handler_no_data:
  assumes "dynamo (TABLE_NAME cfg) = Inr response" and "get_items response = []"
  shows "lambda_handler lib cfg event context dynamo store =
           \<lparr>returned = Inr \<lparr>statusCode = 200, body = ''No data to backup''\<rparr>,
            effects = [Scan (TABLE_NAME cfg), Print ''No data found in the table.''],
            s3_after = store\<rparr>"
  using assms by (simp add: lambda_handler_def)

lemma handler_written:
  assumes "dynamo (TABLE_NAME cfg) = Inr response"
    and "get_items response = row0 # rest"
    and "getOrCreate lib ''DynamoDBToParquet'' = Inr spark"
    and "createDataFrame lib spark (row0 # rest) (first_row_schema row0) = Inr df"
    and "write_parquet lib df [] = Inr buf"
    and "store (BUCKET_NAME cfg) = Some objs"
  shows "lambda_handler lib cfg event context dynamo store =
           \<lparr>returned = Inr \<lparr>statusCode = 200, body = ''Backup saved in Parquet format''\<rparr>,
            effects = [Scan (TABLE_NAME cfg), GetOrCreate ''DynamoDBToParquet'',
                       CreateDataFrame (row0 # rest) (first_row_schema row0), WriteParquet,
                       PutObject (BUCKET_NAME cfg) ''dynamodb_backup.parquet'' buf
                         ''application/octet-stream''],
            s3_after = store(BUCKET_NAME cfg \<mapsto> objs(''dynamodb_backup.parquet'' \<mapsto>
                         \<lparr>Body = buf, ContentType = ''application/octet-stream''\<rparr>))\<rparr>"
  using assms by (simp add: lambda_handler_def put_object_def)

lemma handler_puts:
  "puts (effects (lambda_handler lib cfg event context dynamo store)) = [] \<or>
   (\<exists>buf. puts (effects (lambda_handler lib cfg event context dynamo store)) =
      [(BUCKET_NAME cfg, ''dynamodb_backup.parquet'', buf, ''application/octet-stream'')])"
  by (simp add: lambda_handler_def Let_def split: sum.splits list.splits)

lemma handler_store:
  assumes "store (BUCKET_NAME cfg) = Some objs"
  shows "case last_put (effects (lambda_handler lib cfg event context dynamo store)) of
           None \<Rightarrow> s3_after (lambda_handler lib cfg event context dynamo store) = store
         | Some obj \<Rightarrow>
             ContentType obj = ''application/octet-stream'' \<and>
             s3_after (lambda_handler lib cfg event context dynamo store) =
               store(BUCKET_NAME cfg \<mapsto> objs(''dynamodb_backup.parquet'' \<mapsto> obj))"
  using assms
  by (simp add: lambda_handler_def Let_def last_put_def put_object_def
           split: sum.splits list.splits)

lemma handler_error_keeps_store:
  assumes "returned (lambda_handler lib cfg event context dynamo store) = Inl err"
  shows "s3_after (lambda_handler lib cfg event context dynamo store) = store"
  using assms
  by (simp add: lambda_handler_def Let_def split: sum.splits list.splits)

section \<open>Sequences of invocations\<close>






section \<open>The library instance reads back what it writes\<close>

lemma dec_nat_enc: "dec_nat (enc_nat n @ rest) = (n, rest)"
  by (simp add: dec_nat_def enc_nat_def takeWhile_append dropWhile_append)

lemma byte_of_char: "char_of (unat (of_nat (of_char c) :: 8 word)) = c"
  by (simp add: unat_of_nat)

lemma dec_string_enc: "dec_string (enc_string s @ rest) = (s, rest)"
  by (simp add: dec_string_def enc_string_def dec_nat_enc byte_of_char comp_def)

lemma dec_many_enc:
  assumes "\<And>x rest. x \<in> set xs \<Longrightarrow> d (f x @ rest) = (x, rest)"
  shows "dec_many d (length xs) (concat (map f xs) @ rest) = (xs, rest)"
  using assms by (induction xs) simp_all

lemma dec_list_enc:
  assumes "\<And>x rest. x \<in> set xs \<Longrightarrow> d (f x @ rest) = (x, rest)"
  shows "dec_list d (enc_list f xs @ rest) = (xs, rest)"
  using dec_many_enc [of xs d f rest] assms
  by (simp add: dec_list_def enc_list_def dec_nat_enc)

lemma dec_entry_enc: "dec_entry (enc_entry kv @ rest) = (kv, rest)"
  by (simp add: dec_entry_def enc_entry_def dec_string_enc)

lemma dec_row_enc: "dec_list dec_entry (enc_list enc_entry r @ rest) = (r, rest)"
  by (rule dec_list_enc) (rule dec_entry_enc)

lemma dec_field_enc:
  "field_type f = StringType \<Longrightarrow> dec_field (enc_field f @ rest) = (f, rest)"
  by (cases f) (simp add: dec_field_def enc_field_def dec_string_enc)

lemma ref_decode_enc_frame:
  assumes "all_strings schema"
  shows "ref_decode (enc_frame (schema, rows)) = Some (schema, rows)"
proof -
  have fields: "dec_list dec_field (enc_list enc_field schema @ rest) = (schema, rest)" for rest
    using assms by (intro dec_list_enc dec_field_enc) (simp add: all_strings_def list_all_iff)
  have rws: "dec_list (dec_list dec_entry) (enc_list (enc_list enc_entry) rows @ []) = (rows, [])"
    by (intro dec_list_enc dec_row_enc)
  show ?thesis
    using fields rws by (simp add: ref_decode_def enc_frame_def)
qed


section \<open>Writing and reading back\<close>


lemma first_row_schema_strings: "all_strings (first_row_schema row0)"
  by (simp add: all_strings_def first_row_schema_def list_all_iff)

lemma first_row_schema_names: "map field_name (first_row_schema row0) = keys row0"
  by (simp add: first_row_schema_def comp_def)


section \<open>Truncated scans\<close>

lemma continuation_ignored:
  assumes "dynamo (TABLE_NAME cfg) = Inr response"
    and "dynamo' (TABLE_NAME cfg) = Inr (response\<lparr>LastEvaluatedKey := k\<rparr>)"
  shows "lambda_handler lib cfg event context dynamo' store =
         lambda_handler lib cfg event context dynamo store"
  using assms by (simp add: lambda_handler_def get_items_def)

lemma first_page_complete:
  assumes "length rows \<le> limit"
  shows "get_items (first_page limit rows) = rows \<and>
         LastEvaluatedKey (first_page limit rows) = None"
  using assms by (simp add: first_page_def get_items_def)

lemma first_page_truncated:
  assumes "limit < length rows"
  shows "get_items (first_page limit rows) = take limit rows \<and>
         get_items (first_page limit rows) \<noteq> rows \<and>
         LastEvaluatedKey (first_page limit rows) \<noteq> None"
proof -
  have "length (take limit rows) \<noteq> length rows"
    using assms by simp
  then have "take limit rows \<noteq> rows"
    by metis
  then show ?thesis
    using assms by (simp add: first_page_def get_items_def)
qed

section \<open>The handler on the example data\<close>

lemma load_module_example: "load_module environ0 = Inr cfg0"
  by (simp add: load_module_def environ_get_def environ0_def cfg0_def)

lemma example_run:
  "lambda_handler ref_lib cfg0 event context
      (reply \<lparr>Items = Some [row_a, row_b], LastEvaluatedKey = None\<rparr>) store0 =
     \<lparr>returned = Inr \<lparr>statusCode = 200, body = ''Backup saved in Parquet format''\<rparr>,
      effects = [Scan ''source'', GetOrCreate ''DynamoDBToParquet'',
                 CreateDataFrame [row_a, row_b] (first_row_schema row_a), WriteParquet,
                 PutObject ''backups'' ''dynamodb_backup.parquet''
                   (enc_frame (first_row_schema row_a, [row_a, row_b]))
                   ''application/octet-stream''],
      s3_after = store0(''backups'' \<mapsto> [''dynamodb_backup.parquet'' \<mapsto>
                   \<lparr>Body = enc_frame (first_row_schema row_a, [row_a, row_b]),
                    ContentType = ''application/octet-stream''\<rparr>])\<rparr>"
proof -
  have fit: "dict_rows [row_a, row_b] \<and> rows_fit [row_a, row_b] (first_row_schema row_a)"
    by (simp add: dict_rows_def rows_fit_def first_row_schema_def keys_def row_a_def row_b_def)
  show ?thesis
    by (simp add: lambda_handler_def Let_def reply_def get_items_def ref_lib_def fit cfg0_def
          put_object_def store0_def)
qed

lemma truncated_run:
  "lambda_handler ref_lib cfg0 event context
      (table_scan 1 [''source'' \<mapsto> [row_a, row_b]]) store0 =
     \<lparr>returned = Inr \<lparr>statusCode = 200, body = ''Backup saved in Parquet format''\<rparr>,
      effects = [Scan ''source'', GetOrCreate ''DynamoDBToParquet'',
                 CreateDataFrame [row_a] (first_row_schema row_a), WriteParquet,
                 PutObject ''backups'' ''dynamodb_backup.parquet''
                   (enc_frame (first_row_schema row_a, [row_a])) ''application/octet-stream''],
      s3_after = [''backups'' \<mapsto> [''dynamodb_backup.parquet'' \<mapsto>
                   \<lparr>Body = enc_frame (first_row_schema row_a, [row_a]),
                    ContentType = ''application/octet-stream''\<rparr>]]\<rparr>"
proof -
  have fit: "dict_rows [row_a] \<and> rows_fit [row_a] (first_row_schema row_a)"
    by (simp add: dict_rows_def rows_fit_def first_row_schema_def keys_def row_a_def)
  show ?thesis
    by (simp add: lambda_handler_def Let_def table_scan_def first_page_def get_items_def
          ref_lib_def fit cfg0_def put_object_def store0_def)
qed

lemma unwritten_run:
  "lambda_handler path_lib cfg0 event context
      (reply \<lparr>Items = Some [row_a, row_b], LastEvaluatedKey = None\<rparr>) store0 =
     \<lparr>returned = Inl (SparkError ''parquet() takes a path''),
      effects = [Scan ''source'', GetOrCreate ''DynamoDBToParquet'',
                 CreateDataFrame [row_a, row_b] (first_row_schema row_a), WriteParquet],
      s3_after = store0\<rparr>"
proof -
  have fit: "dict_rows [row_a, row_b] \<and> rows_fit [row_a, row_b] (first_row_schema row_a)"
    by (simp add: dict_rows_def rows_fit_def first_row_schema_def keys_def row_a_def row_b_def)
  show ?thesis
    by (simp add: lambda_handler_def Let_def reply_def get_items_def path_lib_def ref_lib_def
          fit cfg0_def)
qed

lemma path_lib_never_writes:
  "puts (effects (lambda_handler path_lib cfg event context dynamo store)) = [] \<and>
   s3_after (lambda_handler path_lib cfg event context dynamo store) = store"
  by (simp add: lambda_handler_def Let_def path_lib_def split: sum.splits list.splits)

lemma path_lib_breaks_contract: "\<not> parquet_codec path_lib decode"
proof
  assume "parquet_codec path_lib decode"
  then have "\<exists>spark df buf rows.
      getOrCreate path_lib ''DynamoDBToParquet'' = Inr spark \<and>
      createDataFrame path_lib spark [row_a] (first_row_schema row_a) = Inr df \<and>
      write_parquet path_lib df [] = Inr buf \<and>
      decode buf = Some (first_row_schema row_a, rows) \<and> same_records rows [row_a]"
    unfolding parquet_codec_def
    by (elim allE [of _ "''DynamoDBToParquet''"] allE [of _ "[row_a]"]
          allE [of _ "first_row_schema row_a"])
       (simp add: dict_rows_def rows_fit_def all_strings_def first_row_schema_def keys_def
          row_a_def)
  then show False
    by (simp add: path_lib_def)
qed

section \<open>Claims\<close>

text \<open>
  C1. The claim is that for every non-empty table with uniform keys the object written by
  the handler reads back as the records of the table. The code does not do that, in two
  ways. First, on the two rows of the specification's example, returned whole by the scan,
  the writer is handed a buffer where it takes a path: line 38 raises, the handler ends
  with that error, no call to the object store is made, and the object under the
  snapshot key is the one that was there before. Second, were the buffer written as the
  module expects (the reference instance), the same table with a scan cut short after its
  first row leaves an object that reads back as that one row, not as the table.
\<close>

theorem uniform_table_snapshot_not_written:
  "dict_rows [row_a, row_b] \<and> uniform_keys [row_a, row_b] \<and>
   returned (lambda_handler path_lib cfg0 () ()
      (reply \<lparr>Items = Some [row_a, row_b], LastEvaluatedKey = None\<rparr>) store0) =
     Inl (SparkError ''parquet() takes a path'') \<and>
   puts (effects (lambda_handler path_lib cfg0 () ()
      (reply \<lparr>Items = Some [row_a, row_b], LastEvaluatedKey = None\<rparr>) store0)) = [] \<and>
   object_at (s3_after (lambda_handler path_lib cfg0 () ()
      (reply \<lparr>Items = Some [row_a, row_b], LastEvaluatedKey = None\<rparr>) store0))
      ''backups'' ''dynamodb_backup.parquet'' =
     Some \<lparr>Body = [7, 7, 7], ContentType = ''text/plain''\<rparr> \<and>
   map_option (\<lambda>obj. map_option snd (ref_decode (Body obj)))
     (object_at (s3_after (lambda_handler ref_lib cfg0 () ()
        (table_scan 1 [''source'' \<mapsto> [row_a, row_b]]) store0))
        ''backups'' ''dynamodb_backup.parquet'') =
     Some (Some [row_a]) \<and>
   \<not> same_records [row_a] [row_a, row_b]"
proof -
  let ?failed = "lambda_handler path_lib cfg0 () ()
      (reply \<lparr>Items = Some [row_a, row_b], LastEvaluatedKey = None\<rparr>) store0"
  let ?cut = "lambda_handler ref_lib cfg0 () ()
      (table_scan 1 [''source'' \<mapsto> [row_a, row_b]]) store0"
  have table: "dict_rows [row_a, row_b] \<and> uniform_keys [row_a, row_b]"
    by (simp add: dict_rows_def uniform_keys_def keys_def row_a_def row_b_def)
  have raised: "returned ?failed = Inl (SparkError ''parquet() takes a path'')"
    by (subst unwritten_run) simp
  have no_put: "puts (effects ?failed) = []"
    by (subst unwritten_run) simp
  have old: "object_at (s3_after ?failed) ''backups'' ''dynamodb_backup.parquet'' =
      Some \<lparr>Body = [7, 7, 7], ContentType = ''text/plain''\<rparr>"
    by (subst unwritten_run) (simp add: object_at_def store0_def)
  have stored: "object_at (s3_after ?cut) ''backups'' ''dynamodb_backup.parquet'' =
      Some \<lparr>Body = enc_frame (first_row_schema row_a, [row_a]),
            ContentType = ''application/octet-stream''\<rparr>"
    by (subst truncated_run) (simp add: object_at_def)
  have one_row: "map_option (\<lambda>obj. map_option snd (ref_decode (Body obj)))
      (object_at (s3_after ?cut) ''backups'' ''dynamodb_backup.parquet'') =
      Some (Some [row_a])"
    unfolding stored by (simp add: ref_decode_enc_frame first_row_schema_strings)
  have "size (mset (map map_of [row_a])) \<noteq> size (mset (map map_of [row_a, row_b]))"
    by simp
  then have dropped: "\<not> same_records [row_a] [row_a, row_b]"
    unfolding same_records_def by metis
  from table raised no_put old one_row dropped show ?thesis
    by (intro conjI) simp_all
qed

text \<open>
  C2. The claim is that the exported records are the whole table, also when the scan is
  cut short. On a table of two rows of which the service returns the first in the first
  page (with \<^verbatim>\<open>LastEvaluatedKey\<close> set), the handler builds the data frame from that
  one row, and the object it writes reads back as that one row: the second row is not
  exported.
\<close>

theorem truncated_scan_exports_first_page_only:
  "LastEvaluatedKey (first_page 1 [row_a, row_b]) = Some row_a \<and>
   frames (effects (lambda_handler ref_lib cfg0 () ()
      (table_scan 1 [''source'' \<mapsto> [row_a, row_b]]) store0)) =
     [([row_a], first_row_schema row_a)] \<and>
   map_option (\<lambda>obj. ref_decode (Body obj))
     (object_at (s3_after (lambda_handler ref_lib cfg0 () ()
        (table_scan 1 [''source'' \<mapsto> [row_a, row_b]]) store0))
        ''backups'' ''dynamodb_backup.parquet'') =
     Some (Some (first_row_schema row_a, [row_a])) \<and>
   \<not> same_records [row_a] [row_a, row_b]"
proof -
  let ?out = "lambda_handler ref_lib cfg0 () ()
      (table_scan 1 [''source'' \<mapsto> [row_a, row_b]]) store0"
  have key: "LastEvaluatedKey (first_page 1 [row_a, row_b]) = Some row_a"
    by (simp add: first_page_def)
  have passed: "frames (effects ?out) = [([row_a], first_row_schema row_a)]"
    by (subst truncated_run) simp
  have stored: "object_at (s3_after ?out) ''backups'' ''dynamodb_backup.parquet'' =
      Some \<lparr>Body = enc_frame (first_row_schema row_a, [row_a]),
            ContentType = ''application/octet-stream''\<rparr>"
    by (subst truncated_run) (simp add: object_at_def)
  have decoded: "map_option (\<lambda>obj. ref_decode (Body obj))
      (object_at (s3_after ?out) ''backups'' ''dynamodb_backup.parquet'') =
      Some (Some (first_row_schema row_a, [row_a]))"
    unfolding stored by (simp add: ref_decode_enc_frame first_row_schema_strings)
  have "size (mset (map map_of [row_a])) \<noteq> size (mset (map map_of [row_a, row_b]))"
    by simp
  then have dropped: "\<not> same_records [row_a] [row_a, row_b]"
    unfolding same_records_def by metis
  from key passed decoded dropped show ?thesis
    by (intro conjI)
qed

text \<open>
  C3. When the scan returns zero items, the handler returns status 200 with the body
  "No data to backup", leaves the object store as it was, and calls neither the object
  store nor the Spark library: its only calls are the scan and the print.
\<close>

theorem empty_table_no_write:
  assumes "dynamo (TABLE_NAME cfg) = Inr response"
    and "Items response = Some []"
  shows "returned (lambda_handler lib cfg event context dynamo store) =
           Inr \<lparr>statusCode = 200, body = ''No data to backup''\<rparr> \<and>
         s3_after (lambda_handler lib cfg event context dynamo store) = store \<and>
         effects (lambda_handler lib cfg event context dynamo store) =
           [Scan (TABLE_NAME cfg), Print ''No data found in the table.''] \<and>
         puts (effects (lambda_handler lib cfg event context dynamo store)) = [] \<and>
         \<not> list_ex is_encoding (effects (lambda_handler lib cfg event context dynamo store))"
proof -
  have "get_items response = []"
    using assms(2) by (simp add: get_items_def)
  with assms(1) show ?thesis
    by (simp add: handler_no_data)
qed

theorem empty_table_no_write_witness:
  "returned (lambda_handler ref_lib cfg0 () ()
      (reply \<lparr>Items = Some [], LastEvaluatedKey = None\<rparr>) store0) =
     Inr \<lparr>statusCode = 200, body = ''No data to backup''\<rparr> \<and>
   s3_after (lambda_handler ref_lib cfg0 () ()
      (reply \<lparr>Items = Some [], LastEvaluatedKey = None\<rparr>) store0) = store0 \<and>
   puts (effects (lambda_handler ref_lib cfg0 () ()
      (reply \<lparr>Items = Some [], LastEvaluatedKey = None\<rparr>) store0)) = []"
proof -
  let ?response = "\<lparr>Items = Some [], LastEvaluatedKey = None\<rparr> :: string scan_response"
  have h1: "reply ?response (TABLE_NAME cfg0) = Inr ?response"
    by (simp add: reply_def)
  have h2: "Items ?response = Some []" by simp
  show ?thesis
    using empty_table_no_write [where dynamo = "reply ?response" and cfg = cfg0 and lib = ref_lib
        and store = store0, OF h1 h2, of "()" "()"]
    by simp
qed

text \<open>
  C4. For a non-empty row set, the schema handed to the data-frame constructor lists the
  keys of the first row in that row's order, every field of type string and nullable; a
  table with the same first row and any other rows after it gets the same schema.
\<close>

theorem schema_from_first_row:
  assumes "dynamo (TABLE_NAME cfg) = Inr response"
    and "get_items response = row0 # rest"
    and "dynamo' (TABLE_NAME cfg) = Inr response'"
    and "get_items response' = row0 # rest'"
    and "getOrCreate lib ''DynamoDBToParquet'' = Inr spark"
  shows "\<exists>schema.
           frames (effects (lambda_handler lib cfg event context dynamo store)) =
             [(row0 # rest, schema)] \<and>
           frames (effects (lambda_handler lib cfg event context dynamo' store)) =
             [(row0 # rest', schema)] \<and>
           map field_name schema = map fst row0 \<and>
           list_all (\<lambda>f. field_type f = StringType \<and> field_nullable f) schema"
proof (intro exI [of _ "first_row_schema row0"] conjI)
  show "frames (effects (lambda_handler lib cfg event context dynamo store)) =
          [(row0 # rest, first_row_schema row0)]"
    using assms(1,2,5) by (simp add: lambda_handler_def Let_def split: sum.splits)
  show "frames (effects (lambda_handler lib cfg event context dynamo' store)) =
          [(row0 # rest', first_row_schema row0)]"
    using assms(3,4,5) by (simp add: lambda_handler_def Let_def split: sum.splits)
  show "map field_name (first_row_schema row0) = map fst row0"
    by (simp add: first_row_schema_def keys_def comp_def)
  show "list_all (\<lambda>f. field_type f = StringType \<and> field_nullable f) (first_row_schema row0)"
    by (simp add: first_row_schema_def list_all_iff)
qed

theorem schema_from_first_row_witness:
  "\<exists>schema.
     frames (effects (lambda_handler ref_lib cfg0 () ()
        (reply \<lparr>Items = Some [row_a, row_x], LastEvaluatedKey = None\<rparr>) store0)) =
       [([row_a, row_x], schema)] \<and>
     frames (effects (lambda_handler ref_lib cfg0 () ()
        (reply \<lparr>Items = Some [row_a, row_b], LastEvaluatedKey = None\<rparr>) store0)) =
       [([row_a, row_b], schema)] \<and>
     map field_name schema = [''id'', ''name''] \<and>
     list_all (\<lambda>f. field_type f = StringType \<and> field_nullable f) schema"
proof -
  let ?r = "\<lparr>Items = Some [row_a, row_x], LastEvaluatedKey = None\<rparr>"
  let ?r' = "\<lparr>Items = Some [row_a, row_b], LastEvaluatedKey = None\<rparr>"
  have h1: "reply ?r (TABLE_NAME cfg0) = Inr ?r" by (simp add: reply_def)
  have h2: "get_items ?r = row_a # [row_x]" by (simp add: get_items_def)
  have h3: "reply ?r' (TABLE_NAME cfg0) = Inr ?r'" by (simp add: reply_def)
  have h4: "get_items ?r' = row_a # [row_b]" by (simp add: get_items_def)
  have h5: "getOrCreate ref_lib ''DynamoDBToParquet'' = Inr ()" by (simp add: ref_lib_def)
  have k: "map fst row_a = [''id'', ''name'']" by (simp add: row_a_def)
  show ?thesis
    using schema_from_first_row [where dynamo = "reply ?r" and dynamo' = "reply ?r'"
        and cfg = cfg0 and store = store0, OF h1 h2 h3 h4 h5, of "()" "()"]
    by (simp add: k)
qed

text \<open>
  C5. When the Spark session, the data-frame construction or the Parquet write raises, the
  handler ends with that error, makes no call to the object store, and leaves the store
  as it was.
\<close>

theorem encoding_failure_writes_nothing:
  assumes "dynamo (TABLE_NAME cfg) = Inr response"
    and "get_items response = row0 # rest"
    and "getOrCreate lib ''DynamoDBToParquet'' = Inl err \<or>
         (\<exists>spark. getOrCreate lib ''DynamoDBToParquet'' = Inr spark \<and>
            (createDataFrame lib spark (row0 # rest) (first_row_schema row0) = Inl err \<or>
             (\<exists>df. createDataFrame lib spark (row0 # rest) (first_row_schema row0) = Inr df \<and>
                   write_parquet lib df [] = Inl err)))"
  shows "returned (lambda_handler lib cfg event context dynamo store) = Inl err \<and>
         puts (effects (lambda_handler lib cfg event context dynamo store)) = [] \<and>
         s3_after (lambda_handler lib cfg event context dynamo store) = store"
  using assms by (auto simp: lambda_handler_def)

theorem encoding_failure_writes_nothing_witness:
  "returned (lambda_handler ref_lib cfg0 () ()
      (reply \<lparr>Items = Some [row_a, row_x], LastEvaluatedKey = None\<rparr>) store0) =
     Inl (SparkError ''row does not match the schema'') \<and>
   puts (effects (lambda_handler ref_lib cfg0 () ()
      (reply \<lparr>Items = Some [row_a, row_x], LastEvaluatedKey = None\<rparr>) store0)) = [] \<and>
   s3_after (lambda_handler ref_lib cfg0 () ()
      (reply \<lparr>Items = Some [row_a, row_x], LastEvaluatedKey = None\<rparr>) store0) = store0"
proof -
  let ?r = "\<lparr>Items = Some [row_a, row_x], LastEvaluatedKey = None\<rparr>"
  have h1: "reply ?r (TABLE_NAME cfg0) = Inr ?r" by (simp add: reply_def)
  have h2: "get_items ?r = row_a # [row_x]" by (simp add: get_items_def)
  have "''extra'' \<in> set (keys row_x)" and "''extra'' \<notin> set (keys row_a)"
    by (simp_all add: keys_def row_a_def row_x_def)
  then have "set (keys row_x) \<noteq> set (keys row_a)"
    by blast
  then have unfit: "\<not> rows_fit [row_a, row_x] (first_row_schema row_a)"
    by (simp add: rows_fit_def first_row_schema_names)
  have h3: "getOrCreate ref_lib ''DynamoDBToParquet'' = Inl (SparkError ''row does not match the schema'') \<or>
         (\<exists>spark. getOrCreate ref_lib ''DynamoDBToParquet'' = Inr spark \<and>
            (createDataFrame ref_lib spark (row_a # [row_x]) (first_row_schema row_a) =
               Inl (SparkError ''row does not match the schema'') \<or>
             (\<exists>df. createDataFrame ref_lib spark (row_a # [row_x]) (first_row_schema row_a) = Inr df \<and>
                   write_parquet ref_lib df [] = Inl (SparkError ''row does not match the schema''))))"
    by (simp add: ref_lib_def unfit)
  show ?thesis
    by (rule encoding_failure_writes_nothing [where dynamo = "reply ?r" and cfg = cfg0,
          OF h1 h2 h3])
qed

text \<open>
  C6. Every call to the object store that the handler makes names the configured bucket,
  the key "dynamodb_backup.parquet" and the content type "application/octet-stream";
  an object of the store that differs after the invocation is the one at that bucket and
  key, and it carries that content type.
\<close>

theorem fixed_destination:
  "list_all (\<lambda>(b, k, buf, ct). b = BUCKET_NAME cfg \<and> k = ''dynamodb_backup.parquet'' \<and>
              ct = ''application/octet-stream'')
     (puts (effects (lambda_handler lib cfg event context dynamo store))) \<and>
   (\<forall>bucket key.
      object_at (s3_after (lambda_handler lib cfg event context dynamo store)) bucket key \<noteq>
        object_at store bucket key \<longrightarrow>
      bucket = BUCKET_NAME cfg \<and> key = ''dynamodb_backup.parquet'' \<and>
      (\<exists>buf. object_at (s3_after (lambda_handler lib cfg event context dynamo store)) bucket key =
         Some \<lparr>Body = buf, ContentType = ''application/octet-stream''\<rparr>))"
proof (rule conjI)
  show "list_all (\<lambda>(b, k, buf, ct). b = BUCKET_NAME cfg \<and> k = ''dynamodb_backup.parquet'' \<and>
              ct = ''application/octet-stream'')
     (puts (effects (lambda_handler lib cfg event context dynamo store)))"
    using handler_puts [of lib cfg event "context" dynamo store] by auto
next
  have "bucket = BUCKET_NAME cfg \<and> key = ''dynamodb_backup.parquet'' \<and>
      (\<exists>buf. object_at (s3_after (lambda_handler lib cfg event context dynamo store)) bucket key =
         Some \<lparr>Body = buf, ContentType = ''application/octet-stream''\<rparr>)"
    if diff: "object_at (s3_after (lambda_handler lib cfg event context dynamo store)) bucket key \<noteq>
        object_at store bucket key" for bucket key
  proof (cases "store (BUCKET_NAME cfg)")
    case None
    then have "s3_after (lambda_handler lib cfg event context dynamo store) = store"
      by (simp add: lambda_handler_def Let_def put_object_def split: sum.splits list.splits)
    with diff show ?thesis by simp
  next
    case (Some objs)
    note bucket = this
    show ?thesis
    proof (cases "last_put (effects (lambda_handler lib cfg event context dynamo store))")
      case None
      with handler_store [where store = store and cfg = cfg, OF bucket, of lib event "context" dynamo] diff show ?thesis by simp
    next
      case (Some obj)
      with handler_store [where store = store and cfg = cfg, OF bucket, of lib event "context" dynamo]
      have ct: "ContentType obj = ''application/octet-stream''"
        and upd: "s3_after (lambda_handler lib cfg event context dynamo store) =
               store(BUCKET_NAME cfg \<mapsto> objs(''dynamodb_backup.parquet'' \<mapsto> obj))"
        by simp_all
      have obj: "obj = \<lparr>Body = Body obj, ContentType = ''application/octet-stream''\<rparr>"
        using ct by (cases obj) simp
      from diff bucket
      have there: "bucket = BUCKET_NAME cfg \<and> key = ''dynamodb_backup.parquet''"
        by (auto simp: upd object_at_def split: if_splits)
      have "object_at (s3_after (lambda_handler lib cfg event context dynamo store))
          (BUCKET_NAME cfg) ''dynamodb_backup.parquet'' = Some obj"
        by (simp add: upd object_at_def)
      with obj have "\<exists>buf. object_at (s3_after (lambda_handler lib cfg event context dynamo store))
          (BUCKET_NAME cfg) ''dynamodb_backup.parquet'' =
            Some \<lparr>Body = buf, ContentType = ''application/octet-stream''\<rparr>"
        by (intro exI [of _ "Body obj"]) simp
      with there show ?thesis by simp
    qed
  qed
  then show "\<forall>bucket key.
      object_at (s3_after (lambda_handler lib cfg event context dynamo store)) bucket key \<noteq>
        object_at store bucket key \<longrightarrow>
      bucket = BUCKET_NAME cfg \<and> key = ''dynamodb_backup.parquet'' \<and>
      (\<exists>buf. object_at (s3_after (lambda_handler lib cfg event context dynamo store)) bucket key =
         Some \<lparr>Body = buf, ContentType = ''application/octet-stream''\<rparr>)"
    by blast
qed

theorem fixed_destination_witness:
  "puts (effects (lambda_handler ref_lib cfg0 () ()
      (reply \<lparr>Items = Some [row_a, row_b], LastEvaluatedKey = None\<rparr>) store0)) \<noteq> [] \<and>
   list_all (\<lambda>(b, k, buf, ct). b = ''backups'' \<and> k = ''dynamodb_backup.parquet'' \<and>
              ct = ''application/octet-stream'')
     (puts (effects (lambda_handler ref_lib cfg0 () ()
        (reply \<lparr>Items = Some [row_a, row_b], LastEvaluatedKey = None\<rparr>) store0)))"
proof -
  have b: "BUCKET_NAME cfg0 = ''backups''" by (simp add: cfg0_def)
  have w: "puts (effects (lambda_handler ref_lib cfg0 () ()
      (reply \<lparr>Items = Some [row_a, row_b], LastEvaluatedKey = None\<rparr>) store0)) \<noteq> []"
    by (simp add: example_run)
  have "list_all (\<lambda>(b, k, buf, ct). b = BUCKET_NAME cfg0 \<and> k = ''dynamodb_backup.parquet'' \<and>
              ct = ''application/octet-stream'')
     (puts (effects (lambda_handler ref_lib cfg0 () ()
        (reply \<lparr>Items = Some [row_a, row_b], LastEvaluatedKey = None\<rparr>) store0)))"
    using fixed_destination [of cfg0 ref_lib "()" "()"
        "reply \<lparr>Items = Some [row_a, row_b], LastEvaluatedKey = None\<rparr>" store0]
    by (elim conjE)
  with w show ?thesis
    unfolding b by simp
qed



text \<open>
  C8. When TABLE_NAME or BUCKET_NAME is absent from the environment, importing the module
  raises KeyError, and the invocation ends with that error before the handler runs: no
  call is made and the object store is as before.
\<close>

theorem missing_configuration_fails_at_startup:
  assumes "environ ''TABLE_NAME'' = None \<or> environ ''BUCKET_NAME'' = None"
  shows "\<exists>name. load_module environ = Inl (KeyError name) \<and>
           invoke lib environ event context dynamo store =
             \<lparr>returned = Inl (KeyError name), effects = [], s3_after = store\<rparr>"
  using assms
  by (auto simp: load_module_def environ_get_def invoke_def split: option.splits)

theorem missing_configuration_fails_at_startup_witness:
  "\<exists>name. load_module [''TABLE_NAME'' \<mapsto> ''source''] = Inl (KeyError name) \<and>
     invoke ref_lib [''TABLE_NAME'' \<mapsto> ''source''] () ()
        (reply \<lparr>Items = Some [row_a], LastEvaluatedKey = None\<rparr>) store0 =
       \<lparr>returned = Inl (KeyError name), effects = [], s3_after = store0\<rparr>"
proof -
  have h: "[''TABLE_NAME'' \<mapsto> ''source''] ''TABLE_NAME'' = None \<or>
           [''TABLE_NAME'' \<mapsto> ''source''] ''BUCKET_NAME'' = None"
    by simp
  show ?thesis
    by (rule missing_configuration_fails_at_startup [OF h])
qed

text \<open>
  C9. The event and the context do not influence the handler: with the same library,
  configuration, table state and object store, any two events and contexts give the same
  return value, the same calls and the same object store.
\<close>

theorem event_and_context_unused:
  "lambda_handler lib cfg event context dynamo store =
     lambda_handler lib cfg event' context' dynamo store \<and>
   invoke lib environ event context dynamo store =
     invoke lib environ event' context' dynamo store"
  by (simp add: lambda_handler_def invoke_def split: sum.splits)

text \<open>
  C10. A scan reply without the key "Items" is handled as the reply of an empty table is:
  the outcome is the same, status 200 with "No data to backup" and nothing written.
\<close>

theorem missing_items_as_empty:
  assumes "dynamo (TABLE_NAME cfg) = Inr response"
    and "Items response = None"
  shows "lambda_handler lib cfg event context dynamo store =
           lambda_handler lib cfg event context
             (dynamo(TABLE_NAME cfg := Inr (response\<lparr>Items := Some []\<rparr>))) store \<and>
         returned (lambda_handler lib cfg event context dynamo store) =
           Inr \<lparr>statusCode = 200, body = ''No data to backup''\<rparr> \<and>
         s3_after (lambda_handler lib cfg event context dynamo store) = store \<and>
         puts (effects (lambda_handler lib cfg event context dynamo store)) = []"
proof -
  have none: "get_items response = []"
    using assms(2) by (simp add: get_items_def)
  have empty: "get_items (response\<lparr>Items := Some []\<rparr>) = []"
    by (simp add: get_items_def)
  have scan': "(dynamo(TABLE_NAME cfg := Inr (response\<lparr>Items := Some []\<rparr>))) (TABLE_NAME cfg) =
      Inr (response\<lparr>Items := Some []\<rparr>)"
    by simp
  show ?thesis
    by (simp add: handler_no_data [where dynamo = dynamo, OF assms(1) none]
          handler_no_data [where dynamo = "dynamo(TABLE_NAME cfg := Inr (response\<lparr>Items := Some []\<rparr>))",
            OF scan' empty])
qed

theorem missing_items_as_empty_witness:
  "lambda_handler ref_lib cfg0 () () (reply \<lparr>Items = None, LastEvaluatedKey = None\<rparr>) store0 =
     lambda_handler ref_lib cfg0 () ()
       ((reply \<lparr>Items = None, LastEvaluatedKey = None\<rparr>)
          (TABLE_NAME cfg0 := Inr (\<lparr>Items = None, LastEvaluatedKey = None\<rparr>\<lparr>Items := Some []\<rparr>)))
       store0 \<and>
   returned (lambda_handler ref_lib cfg0 () ()
      (reply \<lparr>Items = None, LastEvaluatedKey = None\<rparr>) store0) =
     Inr \<lparr>statusCode = 200, body = ''No data to backup''\<rparr> \<and>
   s3_after (lambda_handler ref_lib cfg0 () ()
      (reply \<lparr>Items = None, LastEvaluatedKey = None\<rparr>) store0) = store0 \<and>
   puts (effects (lambda_handler ref_lib cfg0 () ()
      (reply \<lparr>Items = None, LastEvaluatedKey = None\<rparr>) store0)) = []"
proof -
  let ?response = "\<lparr>Items = None, LastEvaluatedKey = None\<rparr> :: string scan_response"
  have h1: "reply ?response (TABLE_NAME cfg0) = Inr ?response"
    by (simp add: reply_def)
  have h2: "Items ?response = None" by simp
  show ?thesis
    by (rule missing_items_as_empty [where dynamo = "reply ?response" and cfg = cfg0
        and lib = ref_lib and store = store0, OF h1 h2, of "()" "()"])
qed

end
